theory Spec2Isabelle
  imports Complex_Main "HOL-Library.Word"
begin

section \<open>The 4x4 matrix utility (include/util/ExtendedMath.h)\<close>

text \<open>
  \<^verbatim>\<open>Matrix4<T>\<close> stores \<^verbatim>\<open>T m_matrix[4][4]\<close>. The sixteen cells are the
  sixteen arguments of the explicit constructor, in row-major order; the selector
  \<open>mij\<close> reads \<^verbatim>\<open>m_matrix[i][j]\<close>. The element type \<^verbatim>\<open>T\<close> is a type
  parameter. Where a property rests on laws of arithmetic, \<^verbatim>\<open>T\<close> is a commutative
  ring (a field for the inverse): exact arithmetic, which \<^verbatim>\<open>unsigned\<close> has as the
  ring \<open>32 word\<close> and \<^verbatim>\<open>float\<close> has up to rounding.
\<close>

datatype 'a Matrix4 = Matrix4
  (m00: 'a) (m01: 'a) (m02: 'a) (m03: 'a)
  (m10: 'a) (m11: 'a) (m12: 'a) (m13: 'a)
  (m20: 'a) (m21: 'a) (m22: 'a) (m23: 'a)
  (m30: 'a) (m31: 'a) (m32: 'a) (m33: 'a)

text \<open>\<^verbatim>\<open>sf::Vector3<T>\<close> of the rendering library: three public members x, y, z.\<close>

record 'a Vector3 =
  vx :: 'a
  vy :: 'a
  vz :: 'a

text \<open>The default constructor \<^verbatim>\<open>Matrix4<T>::Matrix4()\<close>.\<close>

definition Matrix4_default :: "'a::{zero,one} Matrix4" where
  "Matrix4_default = Matrix4
     1 0 0 0
     0 1 0 0
     0 0 1 0
     0 0 0 1"

text \<open>
  \<^verbatim>\<open>operator[]\<close> twice: \<^verbatim>\<open>m[i][j]\<close> reads row \<open>i\<close>, column \<open>j\<close>. The
  source has no range check and every use in this file has both indices below 4.
\<close>

definition rows :: "'a Matrix4 \<Rightarrow> 'a list list" where
  "rows m =
     [[m00 m, m01 m, m02 m, m03 m],
      [m10 m, m11 m, m12 m, m13 m],
      [m20 m, m21 m, m22 m, m23 m],
      [m30 m, m31 m, m32 m, m33 m]]"

definition cell :: "'a Matrix4 \<Rightarrow> nat \<Rightarrow> nat \<Rightarrow> 'a" where
  "cell m i j = rows m ! i ! j"

text \<open>\<^verbatim>\<open>operator*(const Matrix4<T> &right) const\<close>, entry by entry as written.\<close>

definition op_mul :: "'a::comm_ring_1 Matrix4 \<Rightarrow> 'a Matrix4 \<Rightarrow> 'a Matrix4" where
  "op_mul self right = Matrix4
       (m00 self * m00 right + m01 self * m10 right + m02 self * m20 right + m03 self * m30 right)
       (m00 self * m01 right + m01 self * m11 right + m02 self * m21 right + m03 self * m31 right)
       (m00 self * m02 right + m01 self * m12 right + m02 self * m22 right + m03 self * m32 right)
       (m00 self * m03 right + m01 self * m13 right + m02 self * m23 right + m03 self * m33 right)
       (m10 self * m00 right + m11 self * m10 right + m12 self * m20 right + m13 self * m30 right)
       (m10 self * m01 right + m11 self * m11 right + m12 self * m21 right + m13 self * m31 right)
       (m10 self * m02 right + m11 self * m12 right + m12 self * m22 right + m13 self * m32 right)
       (m10 self * m03 right + m11 self * m13 right + m12 self * m23 right + m13 self * m33 right)
       (m20 self * m00 right + m21 self * m10 right + m22 self * m20 right + m23 self * m30 right)
       (m20 self * m01 right + m21 self * m11 right + m22 self * m21 right + m23 self * m31 right)
       (m20 self * m02 right + m21 self * m12 right + m22 self * m22 right + m23 self * m32 right)
       (m20 self * m03 right + m21 self * m13 right + m22 self * m23 right + m23 self * m33 right)
       (m30 self * m00 right + m31 self * m10 right + m32 self * m20 right + m33 self * m30 right)
       (m30 self * m01 right + m31 self * m11 right + m32 self * m21 right + m33 self * m31 right)
       (m30 self * m02 right + m31 self * m12 right + m32 self * m22 right + m33 self * m32 right)
       (m30 self * m03 right + m31 self * m13 right + m32 self * m23 right + m33 self * m33 right)"

text \<open>
  \<^verbatim>\<open>operator*=\<close> assigns the product to the receiver and returns a reference to
  it: the value below is both the receiver after the call and the returned matrix.
\<close>

definition op_mul_assign :: "'a::comm_ring_1 Matrix4 \<Rightarrow> 'a Matrix4 \<Rightarrow> 'a Matrix4" where
  "op_mul_assign self right = op_mul self right"

text \<open>
  \<^verbatim>\<open>operator==\<close>: a double iteration over 0..3 that returns false at the first pair
  of cells that differ.
\<close>

definition op_eq :: "'a Matrix4 \<Rightarrow> 'a Matrix4 \<Rightarrow> bool" where
  "op_eq self right =
     list_all (\<lambda>i. list_all (\<lambda>j. cell self i j = cell right i j) [0..<4]) [0..<4]"

text \<open>
  The unary \<^verbatim>\<open>operator-()\<close>. It first fills \<^verbatim>\<open>result\<close> cell by cell; \<open>adjij\<close>
  is the value assigned to \<^verbatim>\<open>result[i][j]\<close>, in the order of the source. The
  definitions of this operator ask of \<^verbatim>\<open>T\<close> only that it has the operations they
  write, with no law assumed of them: they stand for the arithmetic of \<^verbatim>\<open>float\<close>
  as well as for exact arithmetic.
\<close>

definition adj00 :: "'a::{plus,minus,uminus,times} Matrix4 \<Rightarrow> 'a" where
  "adj00 m =
     m11 m * m22 m * m33 m - m11 m * m23 m * m32 m
     - m21 m * m12 m * m33 m + m21 m * m13 m * m32 m
     + m31 m * m12 m * m23 m - m31 m * m13 m * m22 m"

definition adj10 :: "'a::{plus,minus,uminus,times} Matrix4 \<Rightarrow> 'a" where
  "adj10 m =
     - m10 m * m22 m * m33 m + m10 m * m23 m * m32 m
     + m20 m * m12 m * m33 m - m20 m * m13 m * m32 m
     - m30 m * m12 m * m23 m + m30 m * m13 m * m22 m"

definition adj20 :: "'a::{plus,minus,uminus,times} Matrix4 \<Rightarrow> 'a" where
  "adj20 m =
     m10 m * m21 m * m33 m - m10 m * m23 m * m31 m
     - m20 m * m11 m * m33 m + m20 m * m13 m * m31 m
     + m30 m * m11 m * m23 m - m30 m * m13 m * m21 m"

definition adj30 :: "'a::{plus,minus,uminus,times} Matrix4 \<Rightarrow> 'a" where
  "adj30 m =
     - m10 m * m21 m * m32 m + m10 m * m22 m * m31 m
     + m20 m * m11 m * m32 m - m20 m * m12 m * m31 m
     - m30 m * m11 m * m22 m + m30 m * m12 m * m21 m"

definition adj01 :: "'a::{plus,minus,uminus,times} Matrix4 \<Rightarrow> 'a" where
  "adj01 m =
     - m01 m * m22 m * m33 m + m01 m * m23 m * m32 m
     + m21 m * m02 m * m33 m - m21 m * m03 m * m32 m
     - m31 m * m02 m * m23 m + m31 m * m03 m * m22 m"

definition adj11 :: "'a::{plus,minus,uminus,times} Matrix4 \<Rightarrow> 'a" where
  "adj11 m =
     m00 m * m22 m * m33 m - m00 m * m23 m * m32 m
     - m20 m * m02 m * m33 m + m20 m * m03 m * m32 m
     + m30 m * m02 m * m23 m - m30 m * m03 m * m22 m"

definition adj21 :: "'a::{plus,minus,uminus,times} Matrix4 \<Rightarrow> 'a" where
  "adj21 m =
     - m00 m * m21 m * m33 m + m00 m * m23 m * m31 m
     + m20 m * m01 m * m33 m - m20 m * m03 m * m31 m
     - m30 m * m01 m * m23 m + m30 m * m03 m * m21 m"

definition adj31 :: "'a::{plus,minus,uminus,times} Matrix4 \<Rightarrow> 'a" where
  "adj31 m =
     m00 m * m21 m * m32 m - m00 m * m22 m * m31 m
     - m20 m * m01 m * m32 m + m20 m * m02 m * m31 m
     + m30 m * m01 m * m22 m - m30 m * m02 m * m21 m"

definition adj02 :: "'a::{plus,minus,uminus,times} Matrix4 \<Rightarrow> 'a" where
  "adj02 m =
     m01 m * m12 m * m33 m - m01 m * m13 m * m32 m
     - m11 m * m02 m * m33 m + m11 m * m03 m * m32 m
     + m31 m * m02 m * m13 m - m31 m * m03 m * m12 m"

definition adj12 :: "'a::{plus,minus,uminus,times} Matrix4 \<Rightarrow> 'a" where
  "adj12 m =
     - m00 m * m12 m * m33 m + m00 m * m13 m * m32 m
     + m10 m * m02 m * m33 m - m10 m * m03 m * m32 m
     - m30 m * m02 m * m13 m + m30 m * m03 m * m12 m"

definition adj22 :: "'a::{plus,minus,uminus,times} Matrix4 \<Rightarrow> 'a" where
  "adj22 m =
     m00 m * m11 m * m33 m - m00 m * m13 m * m31 m
     - m10 m * m01 m * m33 m + m10 m * m03 m * m31 m
     + m30 m * m01 m * m13 m - m30 m * m03 m * m11 m"

definition adj32 :: "'a::{plus,minus,uminus,times} Matrix4 \<Rightarrow> 'a" where
  "adj32 m =
     - m00 m * m11 m * m32 m + m00 m * m12 m * m31 m
     + m10 m * m01 m * m32 m - m10 m * m02 m * m31 m
     - m30 m * m01 m * m12 m + m30 m * m02 m * m11 m"

definition adj03 :: "'a::{plus,minus,uminus,times} Matrix4 \<Rightarrow> 'a" where
  "adj03 m =
     - m01 m * m12 m * m23 m + m01 m * m13 m * m22 m
     + m11 m * m02 m * m23 m - m11 m * m03 m * m22 m
     - m21 m * m02 m * m13 m + m21 m * m03 m * m12 m"

definition adj13 :: "'a::{plus,minus,uminus,times} Matrix4 \<Rightarrow> 'a" where
  "adj13 m =
     m00 m * m12 m * m23 m - m00 m * m13 m * m22 m
     - m10 m * m02 m * m23 m + m10 m * m03 m * m22 m
     + m20 m * m02 m * m13 m - m20 m * m03 m * m12 m"

definition adj23 :: "'a::{plus,minus,uminus,times} Matrix4 \<Rightarrow> 'a" where
  "adj23 m =
     - m00 m * m11 m * m23 m + m00 m * m13 m * m21 m
     + m10 m * m01 m * m23 m - m10 m * m03 m * m21 m
     - m20 m * m01 m * m13 m + m20 m * m03 m * m11 m"

definition adj33 :: "'a::{plus,minus,uminus,times} Matrix4 \<Rightarrow> 'a" where
  "adj33 m =
     m00 m * m11 m * m22 m - m00 m * m12 m * m21 m
     - m10 m * m01 m * m22 m + m10 m * m02 m * m21 m
     + m20 m * m01 m * m12 m - m20 m * m02 m * m11 m"

definition adjugate :: "'a::{plus,minus,uminus,times} Matrix4 \<Rightarrow> 'a Matrix4" where
  "adjugate m = Matrix4
     (adj00 m) (adj01 m) (adj02 m) (adj03 m)
     (adj10 m) (adj11 m) (adj12 m) (adj13 m)
     (adj20 m) (adj21 m) (adj22 m) (adj23 m)
     (adj30 m) (adj31 m) (adj32 m) (adj33 m)"

text \<open>
  \<^verbatim>\<open>det = m[0][0] * result[0][0] + m[0][1] * result[1][0] + m[0][2] * result[2][0]
  + m[0][3] * result[3][0]\<close>.
\<close>

definition det :: "'a::{plus,minus,uminus,times} Matrix4 \<Rightarrow> 'a" where
  "det m = m00 m * adj00 m + m01 m * adj10 m + m02 m * adj20 m + m03 m * adj30 m"

text \<open>The closing double loop \<^verbatim>\<open>result[i][j] *= det\<close>, for a factor \<open>d\<close>.\<close>

definition scale_cells :: "'a::times \<Rightarrow> 'a Matrix4 \<Rightarrow> 'a Matrix4" where
  "scale_cells d r = Matrix4
     (m00 r * d) (m01 r * d) (m02 r * d) (m03 r * d)
     (m10 r * d) (m11 r * d) (m12 r * d) (m13 r * d)
     (m20 r * d) (m21 r * d) (m22 r * d) (m23 r * d)
     (m30 r * d) (m31 r * d) (m32 r * d) (m33 r * d)"

text \<open>
  The receiver is \<^verbatim>\<open>const\<close>; the function returns the new matrix only. When the
  determinant is zero a fresh default matrix is returned, otherwise \<^verbatim>\<open>det\<close>
  becomes \<^verbatim>\<open>1.0 / det\<close> and multiplies every cell.
\<close>

definition op_neg :: "'a::{zero,one,plus,minus,uminus,times,inverse} Matrix4 \<Rightarrow> 'a Matrix4" where
  "op_neg m =
     (if det m = 0 then Matrix4_default
      else scale_cells (1 / det m) (adjugate m))"

text \<open>\<^verbatim>\<open>translate\<close> adds the vector to the cells [0][3], [1][3], [2][3] in place.\<close>

definition translate :: "'a::comm_ring_1 Matrix4 \<Rightarrow> 'a Vector3 \<Rightarrow> 'a Matrix4" where
  "translate m translation = Matrix4
     (m00 m) (m01 m) (m02 m) (m03 m + vx translation)
     (m10 m) (m11 m) (m12 m) (m13 m + vy translation)
     (m20 m) (m21 m) (m22 m) (m23 m + vz translation)
     (m30 m) (m31 m) (m32 m) (m33 m)"

definition toPosition :: "'a Matrix4 \<Rightarrow> 'a Vector3" where
  "toPosition m = \<lparr>vx = m03 m, vy = m13 m, vz = m23 m\<rparr>"

text \<open>\<^verbatim>\<open>scale\<close> and \<^verbatim>\<open>mirror\<close>: both end in \<^verbatim>\<open>(*this) *= ...\<close>.\<close>

definition scale :: "'a::comm_ring_1 Matrix4 \<Rightarrow> 'a Vector3 \<Rightarrow> 'a Matrix4" where
  "scale m s = op_mul_assign m (Matrix4
     (vx s) 0 0 0
     0 (vy s) 0 0
     0 0 (vz s) 0
     0 0 0 1)"

definition mirrorMatrix :: "bool \<Rightarrow> bool \<Rightarrow> bool \<Rightarrow> 'a::comm_ring_1 Matrix4" where
  "mirrorMatrix xAxis yAxis zAxis = Matrix4
     (if xAxis then - 1 else 1) 0 0 0
     0 (if yAxis then - 1 else 1) 0 0
     0 0 (if zAxis then - 1 else 1) 0
     0 0 0 1"

definition mirror :: "'a::comm_ring_1 Matrix4 \<Rightarrow> bool \<Rightarrow> bool \<Rightarrow> bool \<Rightarrow> 'a Matrix4" where
  "mirror m xAxis yAxis zAxis = op_mul_assign m (mirrorMatrix xAxis yAxis zAxis)"

text \<open>
  The determinant as linear algebra defines it, for comparison with \<open>det\<close>: the
  Laplace expansion along the first row, over the 3x3 determinants of the minors.
\<close>

definition det3 :: "'a::comm_ring_1 \<Rightarrow> 'a \<Rightarrow> 'a \<Rightarrow> 'a \<Rightarrow> 'a \<Rightarrow> 'a \<Rightarrow> 'a \<Rightarrow> 'a \<Rightarrow> 'a \<Rightarrow> 'a" where
  "det3 a b c  d e f  g h i = a * (e * i - f * h) - b * (d * i - f * g) + c * (d * h - e * g)"

definition determinant_spec :: "'a::comm_ring_1 Matrix4 \<Rightarrow> 'a" where
  "determinant_spec m =
       m00 m * det3 (m11 m) (m12 m) (m13 m)  (m21 m) (m22 m) (m23 m)  (m31 m) (m32 m) (m33 m)
     - m01 m * det3 (m10 m) (m12 m) (m13 m)  (m20 m) (m22 m) (m23 m)  (m30 m) (m32 m) (m33 m)
     + m02 m * det3 (m10 m) (m11 m) (m13 m)  (m20 m) (m21 m) (m23 m)  (m30 m) (m31 m) (m33 m)
     - m03 m * det3 (m10 m) (m11 m) (m12 m)  (m20 m) (m21 m) (m22 m)  (m30 m) (m31 m) (m32 m)"

subsection \<open>Rotations\<close>














section \<open>Buttons (src/gui/Button.cpp)\<close>

text \<open>
  \<^verbatim>\<open>m_state\<close> is an \<^verbatim>\<open>unsigned short\<close> (the type of \<^verbatim>\<open>getState\<close> and
  \<^verbatim>\<open>setState\<close>) compared with the enumerators of \<^verbatim>\<open>Button::state\<close>. The
  enumeration is declared in include/gui/Button.h, which is not among the sources, so
  the values of the four enumerators that Button.cpp names are parameters of the model.
\<close>

record Button_state =
  IDLE :: "16 word"
  HOVER :: "16 word"
  ACTIVE :: "16 word"
  LOCKED :: "16 word"

text \<open>Enumerators of one C++ enumeration without initialisers are pairwise different.\<close>

definition enumerators_distinct :: "Button_state \<Rightarrow> bool" where
  "enumerators_distinct e \<longleftrightarrow> distinct [IDLE e, HOVER e, ACTIVE e, LOCKED e]"

text \<open>\<^verbatim>\<open>sf::Color(r, g, b)\<close>: three 8-bit channels.\<close>

datatype Color = Color "8 word" "8 word" "8 word"

text \<open>
  Of a button the model keeps the state and the fill colour of \<^verbatim>\<open>m_shape\<close>. The
  geometry of the shape is read only through
  \<^verbatim>\<open>m_shape.getGlobalBounds().contains(mousePos.x, mousePos.y)\<close>, a call into the
  rendering library whose answer is the input \<open>contains\<close>; the answer of
  \<^verbatim>\<open>sf::Mouse::isButtonPressed(sf::Mouse::Left)\<close> is the input \<open>pressed\<close>.
\<close>

record Button =
  m_state :: "16 word"
  fillColor :: Color

definition isPressed :: "Button_state \<Rightarrow> 'a Button_scheme \<Rightarrow> bool" where
  "isPressed e b \<longleftrightarrow> m_state b = ACTIVE e"

definition lockButton :: "Button_state \<Rightarrow> 'a Button_scheme \<Rightarrow> 'a Button_scheme" where
  "lockButton e b = b\<lparr>m_state := LOCKED e\<rparr>"

definition unlockButton :: "Button_state \<Rightarrow> 'a Button_scheme \<Rightarrow> 'a Button_scheme" where
  "unlockButton e b = b\<lparr>m_state := IDLE e\<rparr>"

definition setState :: "16 word \<Rightarrow> 'a Button_scheme \<Rightarrow> 'a Button_scheme" where
  "setState new_state b = b\<lparr>m_state := new_state\<rparr>"

text \<open>
  \<^verbatim>\<open>Button::update\<close>. The first \<open>let\<close> is the if/else on \<open>contains\<close> (HOVER, then
  ACTIVE when the mouse button is down, else IDLE), the second the chain that picks the
  fill colour from the new state.
\<close>

definition Button_update ::
    "Button_state \<Rightarrow> bool \<Rightarrow> bool \<Rightarrow> 'a Button_scheme \<Rightarrow> 'a Button_scheme" where
  "Button_update e contains pressed b =
     (if m_state b \<noteq> LOCKED e then
        (let b1 = (if contains
                   then (let b0 = b\<lparr>m_state := HOVER e\<rparr>
                         in if pressed then b0\<lparr>m_state := ACTIVE e\<rparr> else b0)
                   else b\<lparr>m_state := IDLE e\<rparr>)
         in if m_state b1 = IDLE e then b1\<lparr>fillColor := Color 200 200 200\<rparr>
            else if m_state b1 = HOVER e then b1\<lparr>fillColor := Color 100 100 100\<rparr>
            else b1\<lparr>fillColor := Color 100 200 100\<rparr>)
      else b)"

section \<open>Dropdown lists (src/gui/DropdownList.cpp)\<close>

text \<open>
  A \<^verbatim>\<open>TextButton\<close> is a \<^verbatim>\<open>Button\<close> with a label. Its class (TextButton.h,
  TextButton.cpp) is not among the sources: what its constructor builds and what
  \<^verbatim>\<open>TextButton::update(mousePos, event)\<close> does to an object are parameters below.
\<close>

record TextButton = Button +
  m_label :: string

text \<open>
  \<^verbatim>\<open>DropdownList::DropStatus\<close> is declared in DropdownList.h, not among the sources;
  its two enumerators are parameters as well.
\<close>

record DropStatus =
  HIDDEN :: "16 word"
  DROPPED :: "16 word"

text \<open>
  A \<^verbatim>\<open>DropdownList\<close> derives from \<^verbatim>\<open>TextButton\<close>; \<open>base\<close> is that part of the
  object. \<^verbatim>\<open>m_currentChoice\<close> and the loop counter are \<^verbatim>\<open>unsigned short\<close>. The
  background rectangle and the positions and sizes of the choices are geometry of the
  rendering library that no property below reads; they are left out.
\<close>

record DropdownList =
  base :: TextButton
  m_dropStatus :: "16 word"
  m_currentChoice :: "16 word"
  m_isChanged :: bool
  m_choices :: "TextButton list"

text \<open>Both constructors, after the \<^verbatim>\<open>TextButton\<close> constructor has built \<open>b\<close>.\<close>

definition DropdownList_init :: "DropStatus \<Rightarrow> TextButton \<Rightarrow> DropdownList" where
  "DropdownList_init ds b =
     \<lparr>base = b, m_dropStatus = HIDDEN ds, m_currentChoice = 0, m_isChanged = False,
      m_choices = []\<rparr>"

text \<open>
  \<^verbatim>\<open>addChoice\<close> places the new choice below the last one and appends it with
  \<^verbatim>\<open>push_back\<close>; the overload taking a label and \<^verbatim>\<open>operator+=\<close> call it.
\<close>

definition addChoice :: "DropdownList \<Rightarrow> TextButton \<Rightarrow> DropdownList" where
  "addChoice d new_choice = d\<lparr>m_choices := m_choices d @ [new_choice]\<rparr>"

definition changeRead :: "DropdownList \<Rightarrow> DropdownList" where
  "changeRead d = d\<lparr>m_isChanged := False\<rparr>"

definition getCurrentChoice :: "DropdownList \<Rightarrow> 16 word" where
  "getCurrentChoice d = m_currentChoice d"

definition setLabel :: "string \<Rightarrow> TextButton \<Rightarrow> TextButton" where
  "setLabel l b = b\<lparr>m_label := l\<rparr>"

text \<open>
  The loop \<^verbatim>\<open>for(auto &it : m_choices)\<close> of \<^verbatim>\<open>DropdownList::update\<close>. The
  arguments are the position \<open>i\<close> of the next choice in the vector, the choices still
  to visit, the counter \<^verbatim>\<open>count\<close> and the object; the visited choices are written
  back to the end of \<open>m_choices\<close>, which the caller empties first. \<open>upd i\<close> is
  \<^verbatim>\<open>it->update(mousePos, event)\<close> on the choice at position \<open>i\<close>. The loop has no
  \<^verbatim>\<open>break\<close>: every choice is visited, and the counter wraps at 16 bits.
\<close>

fun update_choices ::
    "Button_state \<Rightarrow> DropStatus \<Rightarrow> (nat \<Rightarrow> TextButton \<Rightarrow> TextButton) \<Rightarrow>
     nat \<Rightarrow> TextButton list \<Rightarrow> 16 word \<Rightarrow> DropdownList \<Rightarrow> DropdownList" where
  "update_choices e ds upd i [] count d = d"
| "update_choices e ds upd i (it # its) count d =
     (let it1 = upd i it;
          d1 = d\<lparr>m_choices := m_choices d @ [it1]\<rparr>;
          d2 = (if isPressed e it1
                then d1\<lparr>m_dropStatus := HIDDEN ds, m_currentChoice := count,
                        m_isChanged := True, base := setLabel (m_label it1) (base d1)\<rparr>
                else d1)
      in update_choices e ds upd (Suc i) its (count + 1) d2)"

text \<open>
  \<^verbatim>\<open>DropdownList::update\<close>. \<open>self_upd\<close> is \<^verbatim>\<open>TextButton::update(mousePos, event)\<close>
  on the receiver, \<open>contains\<close> the answer of the bounds test of the main shape and
  \<open>released\<close> the test \<^verbatim>\<open>event.type == sf::Event::MouseButtonReleased &&
  event.mouseButton.button == sf::Mouse::Left\<close>.
\<close>

definition DropdownList_update ::
    "Button_state \<Rightarrow> DropStatus \<Rightarrow> (TextButton \<Rightarrow> TextButton) \<Rightarrow>
     (nat \<Rightarrow> TextButton \<Rightarrow> TextButton) \<Rightarrow> bool \<Rightarrow> bool \<Rightarrow> DropdownList \<Rightarrow> DropdownList" where
  "DropdownList_update e ds self_upd upd contains released d =
     (let d1 = d\<lparr>base := self_upd (base d)\<rparr>;
          d2 = (if m_dropStatus d1 = DROPPED ds
                then update_choices e ds upd 0 (m_choices d1) 1 (d1\<lparr>m_choices := []\<rparr>)
                else d1)
      in if m_state (base d2) \<noteq> LOCKED e then
           (if contains \<and> released then
              (if m_dropStatus d2 = HIDDEN ds
               then d2\<lparr>m_dropStatus := DROPPED ds\<rparr>
               else d2\<lparr>m_dropStatus := HIDDEN ds\<rparr>)
            else d2)
         else d2)"

text \<open>
  The calls a client can make on a dropdown list: the members of DropdownList.cpp that
  write the object, and any member inherited from \<^verbatim>\<open>TextButton\<close>, which can write
  the base part only.
\<close>

datatype call =
    AddChoice TextButton
  | Update "TextButton \<Rightarrow> TextButton" "nat \<Rightarrow> TextButton \<Rightarrow> TextButton" bool bool
  | ChangeRead
  | Inherited "TextButton \<Rightarrow> TextButton"

fun exec :: "Button_state \<Rightarrow> DropStatus \<Rightarrow> DropdownList \<Rightarrow> call \<Rightarrow> DropdownList" where
  "exec e ds d (AddChoice c) = addChoice d c"
| "exec e ds d (Update self_upd upd contains released) =
     DropdownList_update e ds self_upd upd contains released d"
| "exec e ds d ChangeRead = changeRead d"
| "exec e ds d (Inherited f) = d\<lparr>base := f (base d)\<rparr>"

fun run :: "Button_state \<Rightarrow> DropStatus \<Rightarrow> DropdownList \<Rightarrow> call list \<Rightarrow> DropdownList" where
  "run e ds d [] = d"
| "run e ds d (c # cs) = run e ds (exec e ds d c) cs"

text \<open>
  The words of the invariant, as a history: a choice is selected by an update that runs
  while the list is dropped and after which that choice reports \<open>isPressed\<close>. The
  1-based positions pressed in one update, and the most recent selection of a run
  (\<open>None\<close> until there is one; within one update the last pressed position counts).
\<close>

definition pressed_positions ::
    "Button_state \<Rightarrow> (nat \<Rightarrow> TextButton \<Rightarrow> TextButton) \<Rightarrow> TextButton list \<Rightarrow> nat list" where
  "pressed_positions e upd cs =
     filter (\<lambda>k. isPressed e (upd (k - 1) (cs ! (k - 1)))) [1..<Suc (length cs)]"

fun selects :: "Button_state \<Rightarrow> DropStatus \<Rightarrow> DropdownList \<Rightarrow> call \<Rightarrow> nat option" where
  "selects e ds d (Update self_upd upd contains released) =
     (if m_dropStatus d = DROPPED ds \<and> pressed_positions e upd (m_choices d) \<noteq> []
      then Some (last (pressed_positions e upd (m_choices d))) else None)"
| "selects e ds d c = None"

fun last_selection ::
    "Button_state \<Rightarrow> DropStatus \<Rightarrow> DropdownList \<Rightarrow> nat option \<Rightarrow> call list \<Rightarrow> nat option" where
  "last_selection e ds d s [] = s"
| "last_selection e ds d s (c # cs) =
     last_selection e ds (exec e ds d c)
       (case selects e ds d c of None \<Rightarrow> s | Some k \<Rightarrow> Some k) cs"

text \<open>The number of choices added by a sequence of calls.\<close>

definition added :: "call list \<Rightarrow> nat" where
  "added cs = length (filter (\<lambda>c. case c of AddChoice _ \<Rightarrow> True | _ \<Rightarrow> False) cs)"

text \<open>
  Values for concrete runs: the enumerators numbered from 0, an idle text button with a
  label, and \<^verbatim>\<open>TextButton::update\<close> acting on a text button as
  \<^verbatim>\<open>Button::update\<close> does, for a mouse that is over the button or not and a left
  mouse button that is down or not.
\<close>

definition numbered_states :: Button_state where
  "numbered_states = \<lparr>IDLE = 0, HOVER = 1, ACTIVE = 2, LOCKED = 3\<rparr>"

definition numbered_status :: DropStatus where
  "numbered_status = \<lparr>HIDDEN = 0, DROPPED = 1\<rparr>"

definition idle_button :: "string \<Rightarrow> TextButton" where
  "idle_button l = \<lparr>m_state = 0, fillColor = Color 200 200 200, m_label = l\<rparr>"

definition mouse :: "bool \<Rightarrow> bool \<Rightarrow> TextButton \<Rightarrow> TextButton" where
  "mouse over down = Button_update numbered_states over down"


section \<open>Properties of the matrix utility\<close>

subsection \<open>Cells, equality and the product\<close>

lemma Matrix4_eqI:
  assumes "m00 a = m00 b" "m01 a = m01 b" "m02 a = m02 b" "m03 a = m03 b"
    and "m10 a = m10 b" "m11 a = m11 b" "m12 a = m12 b" "m13 a = m13 b"
    and "m20 a = m20 b" "m21 a = m21 b" "m22 a = m22 b" "m23 a = m23 b"
    and "m30 a = m30 b" "m31 a = m31 b" "m32 a = m32 b" "m33 a = m33 b"
  shows "a = b"
  using assms by (cases a, cases b) simp

lemma less_4_cases: "(i::nat) < 4 \<Longrightarrow> i = 0 \<or> i = 1 \<or> i = 2 \<or> i = 3"
  by arith

lemma sum_lessThan_4: "(\<Sum>k<(4::nat). f k) = f 0 + f 1 + f 2 + (f 3 :: 'a::comm_monoid_add)"
  by (simp add: numeral_eq_Suc add.assoc)

lemma cell_simps:
  "cell m 0 0 = m00 m" "cell m 0 1 = m01 m" "cell m 0 2 = m02 m" "cell m 0 3 = m03 m"
  "cell m 1 0 = m10 m" "cell m 1 1 = m11 m" "cell m 1 2 = m12 m" "cell m 1 3 = m13 m"
  "cell m 2 0 = m20 m" "cell m 2 1 = m21 m" "cell m 2 2 = m22 m" "cell m 2 3 = m23 m"
  "cell m 3 0 = m30 m" "cell m 3 1 = m31 m" "cell m 3 2 = m32 m" "cell m 3 3 = m33 m"
  "cell m 0 (Suc 0) = m01 m" "cell m (Suc 0) 0 = m10 m" "cell m (Suc 0) (Suc 0) = m11 m"
  "cell m (Suc 0) 2 = m12 m" "cell m (Suc 0) 3 = m13 m"
  "cell m 2 (Suc 0) = m21 m" "cell m 3 (Suc 0) = m31 m"
  by (simp_all add: cell_def rows_def numeral_eq_Suc)

lemma op_eq_iff: "op_eq a b \<longleftrightarrow> a = b"
proof
  assume "op_eq a b"
  then have "\<forall>i<4. \<forall>j<4. cell a i j = cell b i j"
    by (simp add: op_eq_def list_all_iff)
  then show "a = b"
    by (intro Matrix4_eqI) (simp_all flip: cell_simps)
next
  assume "a = b"
  then show "op_eq a b"
    by (simp add: op_eq_def list_all_iff)
qed

text \<open>
  C2. For all matrices \<open>a\<close> and \<open>b\<close> and all \<open>i\<close>, \<open>j\<close> in 0..3, cell [i][j] of
  \<^verbatim>\<open>a.operator*(b)\<close> is the sum over \<open>k\<close> in 0..3 of \<open>a[i][k] * b[k][j]\<close>. The
  operator is a \<^verbatim>\<open>const\<close> member taking a \<^verbatim>\<open>const\<close> reference: it is a function
  of the two values and returns a third, so neither operand is modified.
\<close>

theorem op_mul_is_matrix_product:
  "i < 4 \<Longrightarrow> j < 4 \<Longrightarrow> cell (op_mul a b) i j = (\<Sum>k<4. cell a i k * cell b k j)"
proof -
  assume "i < 4" and "j < 4"
  then consider "i = 0" | "i = 1" | "i = 2" | "i = 3"
    using less_4_cases by blast
  then show ?thesis
  proof cases
    case 1
    with \<open>j < 4\<close> less_4_cases [of j] show ?thesis
      by (auto simp: sum_lessThan_4 cell_simps op_mul_def)
  next
    case 2
    with \<open>j < 4\<close> less_4_cases [of j] show ?thesis
      by (auto simp: sum_lessThan_4 cell_simps op_mul_def)
  next
    case 3
    with \<open>j < 4\<close> less_4_cases [of j] show ?thesis
      by (auto simp: sum_lessThan_4 cell_simps op_mul_def)
  next
    case 4
    with \<open>j < 4\<close> less_4_cases [of j] show ?thesis
      by (auto simp: sum_lessThan_4 cell_simps op_mul_def)
  qed
qed

theorem op_mul_is_matrix_product_witness:
  "(2::nat) < 4 \<and> (1::nat) < 4 \<and>
   cell (op_mul (Matrix4 1 2 3 4  5 6 7 8  9 10 11 12  13 14 15 16)
                (Matrix4 1 0 2 0  0 3 0 1  4 0 0 2  0 5 1 0)) 2 1 = (90::int) \<and>
   (\<Sum>k<4. cell (Matrix4 1 2 3 4  5 6 7 8  9 10 11 12  13 14 15 (16::int)) 2 k
           * cell (Matrix4 1 0 2 0  0 3 0 1  4 0 0 2  0 5 1 0) k 1) = 90"
  using op_mul_is_matrix_product [of 2 1
      "Matrix4 1 2 3 4  5 6 7 8  9 10 11 12  13 14 15 (16::int)"
      "Matrix4 1 0 2 0  0 3 0 1  4 0 0 2  0 5 1 0"]
  by (simp add: cell_simps op_mul_def sum_lessThan_4)

subsection \<open>The default matrix\<close>

lemma op_mul_default_left: "op_mul Matrix4_default m = m"
  by (cases m) (simp add: op_mul_def Matrix4_default_def)

lemma op_mul_default_right: "op_mul m Matrix4_default = m"
  by (cases m) (simp add: op_mul_def Matrix4_default_def)

text \<open>
  C7. The default-constructed matrix is the identity matrix (ones on the diagonal,
  zeros elsewhere) and a two-sided identity of the product: \<^verbatim>\<open>Matrix4() * m == m\<close>
  and \<^verbatim>\<open>m * Matrix4() == m\<close>, with \<^verbatim>\<open>==\<close> the operator of the class.
\<close>

theorem default_is_two_sided_identity:
  "(Matrix4_default :: 'a::comm_ring_1 Matrix4) =
      Matrix4 1 0 0 0  0 1 0 0  0 0 1 0  0 0 0 1
   \<and> op_eq (op_mul Matrix4_default m) (m :: 'a Matrix4)
   \<and> op_eq (op_mul m Matrix4_default) m"
  by (simp add: op_eq_iff op_mul_default_left op_mul_default_right) (simp add: Matrix4_default_def)

subsection \<open>Translation\<close>

text \<open>
  C3. \<^verbatim>\<open>m.translate(v)\<close> adds \<open>v.x\<close>, \<open>v.y\<close>, \<open>v.z\<close> to the cells [0][3], [1][3],
  [2][3] and leaves the other thirteen cells as they were; so \<^verbatim>\<open>toPosition()\<close>
  afterwards is the earlier position plus \<open>v\<close>.
\<close>

theorem translate_frame:
  "cell (translate m v) 0 3 = cell m 0 3 + vx v
   \<and> cell (translate m v) 1 3 = cell m 1 3 + vy v
   \<and> cell (translate m v) 2 3 = cell m 2 3 + vz v
   \<and> (\<forall>i<4. \<forall>j<4. \<not> (i < 3 \<and> j = 3) \<longrightarrow> cell (translate m v) i j = cell m i j)
   \<and> toPosition (translate m v) =
       \<lparr>vx = vx (toPosition m) + vx v, vy = vy (toPosition m) + vy v,
        vz = vz (toPosition m) + vz v\<rparr>"
proof -
  have "cell (translate m v) i j = cell m i j" if "i < 4" "j < 4" "\<not> (i < 3 \<and> j = 3)" for i j
    using that less_4_cases [of i] less_4_cases [of j]
    by (auto simp: cell_simps translate_def)
  then show ?thesis
    by (simp add: cell_simps translate_def toPosition_def)
qed

theorem translate_frame_witness:
  "cell (translate (Matrix4 1 2 3 4  5 6 7 8  9 10 11 12  13 14 15 (16::int))
                   \<lparr>vx = 10, vy = 20, vz = 30\<rparr>) 3 3 = 16
   \<and> cell (translate (Matrix4 1 2 3 4  5 6 7 8  9 10 11 12  13 14 15 (16::int))
                   \<lparr>vx = 10, vy = 20, vz = 30\<rparr>) 1 2 = 7
   \<and> toPosition (translate (Matrix4 1 2 3 4  5 6 7 8  9 10 11 12  13 14 15 (16::int))
                   \<lparr>vx = 10, vy = 20, vz = 30\<rparr>) = \<lparr>vx = 14, vy = 28, vz = 42\<rparr>"
  using translate_frame [of "Matrix4 1 2 3 4  5 6 7 8  9 10 11 12  13 14 15 (16::int)"
      "\<lparr>vx = 10, vy = 20, vz = 30\<rparr>"]
  by (simp add: cell_simps toPosition_def translate_def)

subsection \<open>Scaling and mirroring\<close>

lemma cell_op_mul:
  "i < 4 \<Longrightarrow> j < 4 \<Longrightarrow> cell (op_mul a b) i j = (\<Sum>k<4. cell a i k * cell b k j)"
  using less_4_cases [of i] less_4_cases [of j]
  by (auto simp: sum_lessThan_4 cell_simps op_mul_def)

text \<open>
  C6. \<^verbatim>\<open>m.scale(s)\<close> replaces \<open>m\<close> by its product on the right with the diagonal
  matrix diag(s.x, s.y, s.z, 1): in every row the first three cells are multiplied by
  \<open>s.x\<close>, \<open>s.y\<close> and \<open>s.z\<close> and the fourth is kept, which is the sum over \<open>k\<close> of
  \<open>m[i][k]\<close> times cell \<open>[k][j]\<close> of the diagonal matrix. Scaling by (1, 1, 1)
  leaves every matrix unchanged.
\<close>

theorem scale_is_right_product:
  "i < 4 \<Longrightarrow>
     cell (scale m s) i 0 = cell m i 0 * vx s
   \<and> cell (scale m s) i 1 = cell m i 1 * vy s
   \<and> cell (scale m s) i 2 = cell m i 2 * vz s
   \<and> cell (scale m s) i 3 = cell m i 3
   \<and> (\<forall>j<4. cell (scale m s) i j =
         (\<Sum>k<4. cell m i k * cell (Matrix4 (vx s) 0 0 0  0 (vy s) 0 0  0 0 (vz s) 0  0 0 0 1) k j))
   \<and> scale m \<lparr>vx = 1, vy = 1, vz = 1\<rparr> = m"
proof -
  assume i: "i < 4"
  have cells: "cell (scale m s) i 0 = cell m i 0 * vx s \<and> cell (scale m s) i 1 = cell m i 1 * vy s
      \<and> cell (scale m s) i 2 = cell m i 2 * vz s \<and> cell (scale m s) i 3 = cell m i 3"
    using less_4_cases [OF i] by (auto simp: cell_simps scale_def op_mul_assign_def op_mul_def)
  have sums: "cell (scale m s) i j =
      (\<Sum>k<4. cell m i k * cell (Matrix4 (vx s) 0 0 0  0 (vy s) 0 0  0 0 (vz s) 0  0 0 0 1) k j)"
    if "j < 4" for j
    unfolding scale_def op_mul_assign_def using i that by (rule cell_op_mul)
  have "scale m \<lparr>vx = 1, vy = 1, vz = 1\<rparr> = op_mul m Matrix4_default"
    by (simp add: scale_def op_mul_assign_def Matrix4_default_def)
  then have "scale m \<lparr>vx = 1, vy = 1, vz = 1\<rparr> = m"
    by (simp add: op_mul_default_right)
  with cells sums show ?thesis
    by blast
qed

theorem scale_is_right_product_witness:
  "(2::nat) < 4
   \<and> cell (scale (Matrix4 1 2 3 4  5 6 7 8  9 10 11 12  13 14 15 (16::int))
        \<lparr>vx = 2, vy = 3, vz = 5\<rparr>) 2 0 = 18
   \<and> cell (scale (Matrix4 1 2 3 4  5 6 7 8  9 10 11 12  13 14 15 (16::int))
        \<lparr>vx = 2, vy = 3, vz = 5\<rparr>) 2 1 = 30
   \<and> cell (scale (Matrix4 1 2 3 4  5 6 7 8  9 10 11 12  13 14 15 (16::int))
        \<lparr>vx = 2, vy = 3, vz = 5\<rparr>) 2 2 = 55
   \<and> cell (scale (Matrix4 1 2 3 4  5 6 7 8  9 10 11 12  13 14 15 (16::int))
        \<lparr>vx = 2, vy = 3, vz = 5\<rparr>) 2 3 = 12"
  using scale_is_right_product [of 2 "Matrix4 1 2 3 4  5 6 7 8  9 10 11 12  13 14 15 (16::int)"
      "\<lparr>vx = 2, vy = 3, vz = 5\<rparr>"]
  by (simp add: cell_simps)

lemma mirrorMatrix_square:
  "op_mul (mirrorMatrix x y z) (mirrorMatrix x y z) = (Matrix4_default :: 'a::comm_ring_1 Matrix4)"
  by (simp add: op_mul_def mirrorMatrix_def Matrix4_default_def)

lemma op_mul_assoc: "op_mul (op_mul a b) c = op_mul a (op_mul b c)"
  by (rule Matrix4_eqI) (simp_all add: op_mul_def algebra_simps)

text \<open>
  C5. Mirroring is an involution: \<^verbatim>\<open>m.mirror(x, y, z)\<close> twice in a row gives back
  \<open>m\<close>, for every matrix and every combination of the three flags. The reason:
  mirror multiplies on the right by a diagonal matrix whose diagonal cells are -1 or 1
  and whose square is the identity.
\<close>

theorem mirror_involution:
  "mirror (mirror m x y z) x y z = (m :: 'a::comm_ring_1 Matrix4)
   \<and> mirror m x y z = op_mul m (mirrorMatrix x y z)
   \<and> (mirrorMatrix x y z :: 'a Matrix4) =
       Matrix4 (m00 (mirrorMatrix x y z)) 0 0 0  0 (m11 (mirrorMatrix x y z)) 0 0
               0 0 (m22 (mirrorMatrix x y z)) 0  0 0 0 (m33 (mirrorMatrix x y z))
   \<and> m00 (mirrorMatrix x y z :: 'a Matrix4) \<in> {- 1, 1}
   \<and> m11 (mirrorMatrix x y z :: 'a Matrix4) \<in> {- 1, 1}
   \<and> m22 (mirrorMatrix x y z :: 'a Matrix4) \<in> {- 1, 1}
   \<and> m33 (mirrorMatrix x y z :: 'a Matrix4) \<in> {- 1, 1}
   \<and> op_mul (mirrorMatrix x y z) (mirrorMatrix x y z) = (Matrix4_default :: 'a Matrix4)"
proof -
  have "mirror (mirror m x y z) x y z = op_mul m (op_mul (mirrorMatrix x y z) (mirrorMatrix x y z))"
    by (simp add: mirror_def op_mul_assign_def op_mul_assoc)
  then have "mirror (mirror m x y z) x y z = m"
    by (simp add: mirrorMatrix_square op_mul_default_right)
  moreover have "mirror m x y z = op_mul m (mirrorMatrix x y z)"
    by (simp add: mirror_def op_mul_assign_def)
  ultimately show ?thesis
    by (simp add: mirrorMatrix_square) (simp add: mirrorMatrix_def)
qed

subsection \<open>The inverse\<close>

lemmas adj_defs =
  adj00_def adj01_def adj02_def adj03_def adj10_def adj11_def adj12_def adj13_def
  adj20_def adj21_def adj22_def adj23_def adj30_def adj31_def adj32_def adj33_def

lemma det_is_determinant: "det m = determinant_spec m"
  by (simp add: det_def determinant_spec_def det3_def adj_defs algebra_simps)

lemma adjugate_mul_left: "op_mul (adjugate m) m = scale_cells (det m) Matrix4_default"
  by (cases m)
    (simp add: op_mul_def adjugate_def scale_cells_def Matrix4_default_def det_def adj_defs
      algebra_simps)

lemma adjugate_mul_right: "op_mul m (adjugate m) = scale_cells (det m) Matrix4_default"
  by (cases m)
    (simp add: op_mul_def adjugate_def scale_cells_def Matrix4_default_def det_def adj_defs
      algebra_simps)

lemma op_mul_scale_cells_left: "op_mul (scale_cells d a) b = scale_cells d (op_mul a b)"
  by (simp add: op_mul_def scale_cells_def algebra_simps)

lemma op_mul_scale_cells_right: "op_mul a (scale_cells d b) = scale_cells d (op_mul a b)"
  by (simp add: op_mul_def scale_cells_def algebra_simps)

lemma scale_cells_twice:
  "scale_cells c (scale_cells d a) = scale_cells (d * c) (a :: 'a::comm_ring_1 Matrix4)"
  by (simp add: scale_cells_def algebra_simps)

lemma scale_cells_one: "scale_cells 1 a = (a :: 'a::comm_ring_1 Matrix4)"
  by (simp add: scale_cells_def)

text \<open>
  C1. Over exact arithmetic (any field), for every matrix whose determinant is not
  zero the unary negation returns the inverse: \<open>(-m) * m\<close> and \<open>m * (-m)\<close> are both
  the identity matrix. The value is the matrix of cofactors, transposed, times
  \<open>1 / det\<close>, and the \<open>det\<close> the code computes is the determinant.
\<close>

theorem op_neg_is_inverse:
  fixes m :: "'a::field Matrix4"
  assumes "determinant_spec m \<noteq> 0"
  shows "op_mul (op_neg m) m = Matrix4_default
       \<and> op_mul m (op_neg m) = Matrix4_default
       \<and> op_eq (op_mul (op_neg m) m) (Matrix4 1 0 0 0  0 1 0 0  0 0 1 0  0 0 0 1)
       \<and> op_eq (op_mul m (op_neg m)) (Matrix4 1 0 0 0  0 1 0 0  0 0 1 0  0 0 0 1)
       \<and> op_neg m = scale_cells (1 / determinant_spec m) (adjugate m)"
proof -
  have nz: "det m \<noteq> 0"
    using assms by (simp add: det_is_determinant)
  then have neg: "op_neg m = scale_cells (1 / det m) (adjugate m)"
    by (simp add: op_neg_def)
  have one: "det m * (1 / det m) = 1"
    using nz by simp
  have "op_mul (op_neg m) m = scale_cells (det m * (1 / det m)) Matrix4_default"
    by (simp only: neg op_mul_scale_cells_left adjugate_mul_left scale_cells_twice)
  then have left: "op_mul (op_neg m) m = Matrix4_default"
    by (simp only: one scale_cells_one)
  have "op_mul m (op_neg m) = scale_cells (det m * (1 / det m)) Matrix4_default"
    by (simp only: neg op_mul_scale_cells_right adjugate_mul_right scale_cells_twice)
  then have right: "op_mul m (op_neg m) = Matrix4_default"
    by (simp only: one scale_cells_one)
  have "(Matrix4_default :: 'a Matrix4) = Matrix4 1 0 0 0  0 1 0 0  0 0 1 0  0 0 0 1"
    by (simp add: Matrix4_default_def)
  with left right neg show ?thesis
    by (simp add: op_eq_iff det_is_determinant)
qed

theorem op_neg_is_inverse_witness:
  "determinant_spec (Matrix4 2 1 0 0  1 1 0 3  0 4 1 3  5 0 2 (1::rat)) = 58
   \<and> op_neg (Matrix4 2 1 0 0  1 1 0 3  0 4 1 3  5 0 2 (1::rat)) =
       Matrix4 (19 / 58) (5 / 58) (- (3 / 29)) (3 / 58)
               (10 / 29) (- (5 / 29)) (6 / 29) (- (3 / 29))
               (- (41 / 58)) (- (23 / 58)) (8 / 29) (21 / 58)
               (- (13 / 58)) (21 / 58) (- (1 / 29)) (1 / 58)
   \<and> op_mul (op_neg (Matrix4 2 1 0 0  1 1 0 3  0 4 1 3  5 0 2 (1::rat)))
        (Matrix4 2 1 0 0  1 1 0 3  0 4 1 3  5 0 2 1) = Matrix4_default
   \<and> op_mul (Matrix4 2 1 0 0  1 1 0 3  0 4 1 3  5 0 2 1)
        (op_neg (Matrix4 2 1 0 0  1 1 0 3  0 4 1 3  5 0 2 (1::rat))) = Matrix4_default"
proof -
  have d: "determinant_spec (Matrix4 2 1 0 0  1 1 0 3  0 4 1 3  5 0 2 (1::rat)) = 58"
    by (simp add: determinant_spec_def det3_def)
  then have "determinant_spec (Matrix4 2 1 0 0  1 1 0 3  0 4 1 3  5 0 2 (1::rat)) \<noteq> 0"
    by simp
  note inverse = op_neg_is_inverse [OF this]
  have "op_neg (Matrix4 2 1 0 0  1 1 0 3  0 4 1 3  5 0 2 (1::rat)) =
       Matrix4 (19 / 58) (5 / 58) (- (3 / 29)) (3 / 58)
               (10 / 29) (- (5 / 29)) (6 / 29) (- (3 / 29))
               (- (41 / 58)) (- (23 / 58)) (8 / 29) (21 / 58)
               (- (13 / 58)) (21 / 58) (- (1 / 29)) (1 / 58)"
    by (simp add: op_neg_def det_def scale_cells_def adjugate_def adj_defs)
  with d inverse show ?thesis
    by blast
qed

text \<open>
  C8. When the determinant is zero, that is when the value \<^verbatim>\<open>det\<close> that the
  operator computes from the receiver in the arithmetic of \<^verbatim>\<open>T\<close> compares equal to
  0, the negation operator does not fail: it returns a freshly default-constructed
  matrix, the identity. No law of arithmetic is used. The operator is a \<^verbatim>\<open>const\<close>
  member, a function of the receiver's value; the receiver is not written in either
  branch.
\<close>

theorem op_neg_singular:
  fixes m :: "'a::{zero,one,plus,minus,uminus,times,inverse} Matrix4"
  shows "det m = 0 \<Longrightarrow>
    op_neg m = Matrix4_default \<and> op_neg m = Matrix4 1 0 0 0  0 1 0 0  0 0 1 0  0 0 0 1"
  by (simp add: op_neg_def) (simp add: Matrix4_default_def)

theorem op_neg_singular_witness:
  "det (Matrix4 1 2 3 4  2 4 6 8  0 0 1 0  0 0 0 (1::real)) = 0
   \<and> op_neg (Matrix4 1 2 3 4  2 4 6 8  0 0 1 0  0 0 0 (1::real)) =
       Matrix4 1 0 0 0  0 1 0 0  0 0 1 0  0 0 0 1"
proof -
  have "det (Matrix4 1 2 3 4  2 4 6 8  0 0 1 0  0 0 0 (1::real)) = 0"
    by (simp add: det_def adj_defs)
  with op_neg_singular [OF this] show ?thesis
    by blast
qed

subsection \<open>Rotations\<close>



























section \<open>Properties of the widgets\<close>

subsection \<open>The state transition of a button\<close>

text \<open>
  C9. \<^verbatim>\<open>Button::update\<close>: a button that is LOCKED before the call keeps its state and
  its fill colour. Any other button becomes ACTIVE when the mouse is within the bounds
  and the left mouse button is down, HOVER when the mouse is within the bounds and the
  button is not down, IDLE otherwise. So update never makes a button LOCKED that was not,
  and after it \<open>isPressed\<close> holds exactly in the within-bounds-and-pressed case of
  that transition, the case of a button that was not locked.
\<close>

theorem Button_update_transition:
  assumes "enumerators_distinct e"
  shows "(m_state b = LOCKED e \<longrightarrow>
            m_state (Button_update e contains pressed b) = m_state b
          \<and> fillColor (Button_update e contains pressed b) = fillColor b
          \<and> Button_update e contains pressed b = b)
       \<and> (m_state b \<noteq> LOCKED e \<longrightarrow>
            m_state (Button_update e contains pressed b) =
              (if contains \<and> pressed then ACTIVE e else if contains then HOVER e else IDLE e)
          \<and> m_state (Button_update e contains pressed b) \<noteq> LOCKED e)
       \<and> (isPressed e (Button_update e contains pressed b) \<longleftrightarrow>
            m_state b \<noteq> LOCKED e \<and> contains \<and> pressed)"
proof (cases "m_state b = LOCKED e")
  case True
  then have "Button_update e contains pressed b = b"
    by (simp add: Button_update_def)
  with True assms show ?thesis
    by (auto simp: isPressed_def enumerators_distinct_def)
next
  case False
  then have "m_state (Button_update e contains pressed b) =
      (if contains \<and> pressed then ACTIVE e else if contains then HOVER e else IDLE e)"
    by (simp add: Button_update_def Let_def)
  with False assms show ?thesis
    by (auto simp: isPressed_def enumerators_distinct_def)
qed

theorem Button_update_transition_witness:
  "enumerators_distinct numbered_states
   \<and> Button_update numbered_states True True \<lparr>m_state = 3, fillColor = Color 200 200 200\<rparr>
      = \<lparr>m_state = 3, fillColor = Color 200 200 200\<rparr>
   \<and> m_state (Button_update numbered_states True True
        \<lparr>m_state = 0, fillColor = Color 200 200 200\<rparr>) = 2
   \<and> isPressed numbered_states (Button_update numbered_states True True
        \<lparr>m_state = 0, fillColor = Color 200 200 200\<rparr>)
   \<and> \<not> isPressed numbered_states (Button_update numbered_states True True
        \<lparr>m_state = 3, fillColor = Color 200 200 200\<rparr>)"
proof -
  have distinct: "enumerators_distinct numbered_states"
    by (simp add: enumerators_distinct_def numbered_states_def)
  from distinct
    Button_update_transition [OF distinct, of "\<lparr>m_state = 3, fillColor = Color 200 200 200\<rparr>" True True]
    Button_update_transition [OF distinct, of "\<lparr>m_state = 0, fillColor = Color 200 200 200\<rparr>" True True]
  show ?thesis
    by (simp add: isPressed_def numbered_states_def)
qed

subsection \<open>The current choice of a dropdown list\<close>

lemma update_choices_length:
  "length (m_choices (update_choices e ds upd i its count d)) = length (m_choices d) + length its"
  by (induction its arbitrary: i count d) (simp_all add: Let_def)

lemma upt_Suc_split: "i < n \<Longrightarrow> [Suc i..<Suc n] = Suc i # [Suc (Suc i)..<Suc n]"
  by (simp add: upt_conv_Cons)

lemma update_choices_currentChoice:
  "its = drop i cs \<Longrightarrow> count = of_nat (Suc i) \<Longrightarrow>
   m_currentChoice (update_choices e ds upd i its count d) =
     (let ps = filter (\<lambda>k. isPressed e (upd (k - 1) (cs ! (k - 1)))) [Suc i..<Suc (length cs)]
      in if ps = [] then m_currentChoice d else of_nat (last ps))"
proof (induction its arbitrary: i count d)
  case Nil
  then have "length cs \<le> i" by simp
  then show ?case by simp
next
  case (Cons it its)
  define P where "P = (\<lambda>k. isPressed e (upd (k - 1) (cs ! (k - 1))))"
  define ps where "ps = filter P [Suc (Suc i)..<Suc (length cs)]"
  from Cons.prems(1) have i: "i < length cs"
    by (metis drop_all leI list.distinct(1))
  with Cons.prems(1) have it: "it = cs ! i" and its: "its = drop (Suc i) cs"
    by (simp_all add: Cons_nth_drop_Suc [symmetric])
  have cnt: "count + 1 = of_nat (Suc (Suc i))"
    using Cons.prems(2) by simp
  have split: "filter P [Suc i..<Suc (length cs)] = (if P (Suc i) then Suc i # ps else ps)"
    by (simp only: upt_Suc_split [OF i] ps_def filter.simps)
  have IH: "m_currentChoice (update_choices e ds upd (Suc i) its (count + 1) d') =
      (if ps = [] then m_currentChoice d' else of_nat (last ps))" for d'
    using Cons.IH [OF its cnt, of d'] by (simp only: Let_def ps_def P_def)
  have pressed: "isPressed e (upd i it) \<longleftrightarrow> P (Suc i)"
    by (simp add: P_def it)
  have "m_currentChoice (update_choices e ds upd i (it # its) count d) =
      (if ps = [] then (if P (Suc i) then count else m_currentChoice d) else of_nat (last ps))"
    by (simp add: Let_def IH pressed)
  also have "\<dots> = (if filter P [Suc i..<Suc (length cs)] = [] then m_currentChoice d
      else of_nat (last (filter P [Suc i..<Suc (length cs)])))"
    by (simp only: split Cons.prems(2)) simp
  finally show ?case
    by (simp only: Let_def P_def)
qed

lemma pressed_positions_bounds:
  "k \<in> set (pressed_positions e upd cs) \<Longrightarrow> 1 \<le> k \<and> k \<le> length cs"
  by (auto simp: pressed_positions_def)

lemma DropdownList_update_length:
  "length (m_choices (DropdownList_update e ds self_upd upd contains released d)) =
   length (m_choices d)"
  by (simp add: DropdownList_update_def Let_def update_choices_length)

lemma DropdownList_update_currentChoice:
  "m_currentChoice (DropdownList_update e ds self_upd upd contains released d) =
     (case selects e ds d (Update self_upd upd contains released) of
        None \<Rightarrow> m_currentChoice d
      | Some k \<Rightarrow> of_nat k)"
proof -
  have loop: "m_currentChoice (update_choices e ds upd 0 (m_choices d) 1 d') =
      (if pressed_positions e upd (m_choices d) = [] then m_currentChoice d'
       else of_nat (last (pressed_positions e upd (m_choices d))))" for d'
    using update_choices_currentChoice [of "m_choices d" 0 "m_choices d" 1 e ds upd d']
    by (simp add: pressed_positions_def Let_def)
  show ?thesis
    by (simp add: DropdownList_update_def Let_def loop)
qed

lemma selects_bounds:
  "selects e ds d c = Some k \<Longrightarrow> 1 \<le> k \<and> k \<le> length (m_choices d)"
proof (cases c)
  case (Update self_upd upd contains released)
  assume "selects e ds d c = Some k"
  with Update have "pressed_positions e upd (m_choices d) \<noteq> []"
    and "k = last (pressed_positions e upd (m_choices d))"
    by (auto split: if_splits)
  then have "k \<in> set (pressed_positions e upd (m_choices d))"
    by simp
  then show ?thesis
    by (rule pressed_positions_bounds)
qed simp_all

lemma exec_length: "length (m_choices d) \<le> length (m_choices (exec e ds d c))"
  by (cases c) (simp_all add: addChoice_def changeRead_def DropdownList_update_length)

lemma exec_currentChoice:
  "m_currentChoice (exec e ds d c) =
     (case selects e ds d c of None \<Rightarrow> m_currentChoice d | Some k \<Rightarrow> of_nat k)"
  by (cases c) (simp_all add: addChoice_def changeRead_def DropdownList_update_currentChoice)

lemma run_append: "run e ds d (cs @ cs') = run e ds (run e ds d cs) cs'"
  by (induction cs arbitrary: d) simp_all

lemma last_selection_append:
  "last_selection e ds d s (cs @ cs') =
   last_selection e ds (run e ds d cs) (last_selection e ds d s cs) cs'"
  by (induction cs arbitrary: d s) simp_all

lemma run_length: "length (m_choices (run e ds d cs)) = length (m_choices d) + added cs"
proof (induction cs arbitrary: d)
  case Nil
  show ?case by (simp add: added_def)
next
  case (Cons c cs)
  have "length (m_choices (exec e ds d c)) =
      length (m_choices d) + (case c of AddChoice _ \<Rightarrow> 1 | _ \<Rightarrow> 0)"
    by (cases c) (simp_all add: addChoice_def changeRead_def DropdownList_update_length)
  with Cons.IH [of "exec e ds d c"] show ?case
    by (cases c) (simp_all add: added_def)
qed

lemma run_invariant:
  assumes "m_currentChoice d = (case s of None \<Rightarrow> 0 | Some k \<Rightarrow> of_nat k)"
    and "\<And>k. s = Some k \<Longrightarrow> 1 \<le> k \<and> k \<le> length (m_choices d)"
  shows "m_currentChoice (run e ds d cs) =
      (case last_selection e ds d s cs of None \<Rightarrow> 0 | Some k \<Rightarrow> of_nat k)
    \<and> (\<forall>k. last_selection e ds d s cs = Some k \<longrightarrow>
          1 \<le> k \<and> k \<le> length (m_choices (run e ds d cs)))"
  using assms
proof (induction cs arbitrary: d s)
  case Nil
  then show ?case by simp
next
  case (Cons c cs)
  define s' where "s' = (case selects e ds d c of None \<Rightarrow> s | Some k \<Rightarrow> Some k)"
  have cur: "m_currentChoice (exec e ds d c) = (case s' of None \<Rightarrow> 0 | Some k \<Rightarrow> of_nat k)"
    by (simp add: exec_currentChoice s'_def Cons.prems(1) split: option.splits)
  have bound: "1 \<le> k \<and> k \<le> length (m_choices (exec e ds d c))" if "s' = Some k" for k
  proof (cases "selects e ds d c")
    case None
    with that have "s = Some k" by (simp add: s'_def)
    from Cons.prems(2) [OF this] exec_length [of d e ds c] show ?thesis by simp
  next
    case (Some j)
    with that have "selects e ds d c = Some k" by (simp add: s'_def)
    from selects_bounds [OF this] exec_length [of d e ds c] show ?thesis by simp
  qed
  from Cons.IH [OF cur bound] show ?case
    by (simp add: s'_def)
qed

text \<open>
  C10, as the code keeps it. Start from a constructed list and make any sequence of
  calls. Then the number of choices in the list is the number of choices added;
  \<open>getCurrentChoice\<close> never exceeds it; \<open>m_currentChoice\<close> is 0 until a choice has
  been selected and afterwards is the 1-based position of the most recently pressed
  choice, reduced modulo 65536 because the member and the loop counter are
  \<^verbatim>\<open>unsigned short\<close>. While fewer than 65536 choices have been added it is that
  position itself, and the value 0 identifies the state in which nothing has been
  selected yet.
\<close>

theorem currentChoice_invariant:
  fixes e ds b calls
  defines "d \<equiv> run e ds (DropdownList_init ds b) calls"
    and "s \<equiv> last_selection e ds (DropdownList_init ds b) None calls"
  shows "length (m_choices d) = added calls
       \<and> unat (getCurrentChoice d) \<le> added calls
       \<and> unat (getCurrentChoice d) = (case s of None \<Rightarrow> 0 | Some k \<Rightarrow> k mod 65536)
       \<and> (added calls < 65536 \<longrightarrow>
            unat (getCurrentChoice d) = (case s of None \<Rightarrow> 0 | Some k \<Rightarrow> k)
          \<and> (getCurrentChoice d = 0 \<longleftrightarrow> s = None))"
proof -
  have len: "length (m_choices d) = added calls"
    by (simp add: d_def run_length DropdownList_init_def)
  have "m_currentChoice d = (case s of None \<Rightarrow> 0 | Some k \<Rightarrow> of_nat k)
      \<and> (\<forall>k. s = Some k \<longrightarrow> 1 \<le> k \<and> k \<le> length (m_choices d))"
    unfolding d_def s_def by (rule run_invariant) (simp_all add: DropdownList_init_def)
  with len have cur: "m_currentChoice d = (case s of None \<Rightarrow> 0 | Some k \<Rightarrow> of_nat k)"
    and bound: "\<And>k. s = Some k \<Longrightarrow> 1 \<le> k \<and> k \<le> added calls"
    by simp_all
  have u: "unat (getCurrentChoice d) = (case s of None \<Rightarrow> 0 | Some k \<Rightarrow> k mod 65536)"
    by (simp add: getCurrentChoice_def cur unat_of_nat split: option.splits)
  have le: "unat (getCurrentChoice d) \<le> added calls"
  proof (cases s)
    case None
    with u show ?thesis by simp
  next
    case (Some k)
    with u have "unat (getCurrentChoice d) \<le> k" by simp
    with bound [OF Some] show ?thesis by simp
  qed
  have small: "unat (getCurrentChoice d) = (case s of None \<Rightarrow> 0 | Some k \<Rightarrow> k)
      \<and> (getCurrentChoice d = 0 \<longleftrightarrow> s = None)" if "added calls < 65536"
  proof (cases s)
    case None
    with u show ?thesis by (simp add: unat_eq_0)
  next
    case (Some k)
    with bound [OF Some] that have k: "1 \<le> k" "k < 65536" by simp_all
    with u Some have "unat (getCurrentChoice d) = k" by simp
    with k Some show ?thesis by auto
  qed
  from len le u small show ?thesis by simp
qed

theorem currentChoice_invariant_witness:
  "added
     [AddChoice (idle_button ''one''), AddChoice (idle_button ''two''),
      AddChoice (idle_button ''three''),
      Update (mouse True False) (\<lambda>i. mouse False False) True True,
      Update (mouse False True) (\<lambda>i. mouse (i = 1) True) False False] = 3
   \<and> (3::nat) < 65536
   \<and> last_selection numbered_states numbered_status
        (DropdownList_init numbered_status (idle_button ''menu'')) None
        [AddChoice (idle_button ''one''), AddChoice (idle_button ''two''),
         AddChoice (idle_button ''three''),
         Update (mouse True False) (\<lambda>i. mouse False False) True True,
         Update (mouse False True) (\<lambda>i. mouse (i = 1) True) False False]
      = Some 2
   \<and> unat (getCurrentChoice
        (run numbered_states numbered_status
          (DropdownList_init numbered_status (idle_button ''menu''))
          [AddChoice (idle_button ''one''), AddChoice (idle_button ''two''),
           AddChoice (idle_button ''three''),
           Update (mouse True False) (\<lambda>i. mouse False False) True True,
           Update (mouse False True) (\<lambda>i. mouse (i = 1) True) False False])) = 2"
proof -
  define calls where "calls =
     [AddChoice (idle_button ''one''), AddChoice (idle_button ''two''),
      AddChoice (idle_button ''three''),
      Update (mouse True False) (\<lambda>i. mouse False False) True True,
      Update (mouse False True) (\<lambda>i. mouse (i = 1) True) False False]"
  have add: "added calls = 3"
    by (simp add: added_def calls_def)
  have sel: "last_selection numbered_states numbered_status
        (DropdownList_init numbered_status (idle_button ''menu'')) None calls = Some 2"
    unfolding calls_def by code_simp
  from currentChoice_invariant [of numbered_states numbered_status "idle_button ''menu''" calls]
  have "unat (getCurrentChoice
        (run numbered_states numbered_status
          (DropdownList_init numbered_status (idle_button ''menu'')) calls)) = 2"
    by (simp add: add sel)
  with add sel show ?thesis
    unfolding calls_def by simp
qed

text \<open>
  The bound of 65536 is needed. Add 65536 choices, click the list open, and press the
  last choice: the counter has wrapped to 0 when the loop reaches position 65536, so
  after a selection \<open>getCurrentChoice\<close> is 0, not the position of the pressed choice.
\<close>

lemma run_replicate_AddChoice:
  "run e ds d (replicate n (AddChoice c)) = d\<lparr>m_choices := m_choices d @ replicate n c\<rparr>"
proof (induction n arbitrary: d)
  case 0
  show ?case by simp
next
  case (Suc n)
  show ?case
    by (simp add: Suc.IH addChoice_def replicate_app_Cons_same)
qed

lemma last_selection_replicate_AddChoice:
  "last_selection e ds d s (replicate n (AddChoice c)) = s"
  by (induction n arbitrary: d) simp_all

lemma added_replicate_AddChoice: "added (replicate n (AddChoice c) @ cs) = n + added cs"
  by (simp add: added_def)

lemma filter_last_position:
  assumes "0 < n"
  shows "filter (\<lambda>k. k - 1 = n - 1) [1..<Suc n] = [n]"
proof -
  have "filter (\<lambda>k. k - 1 = n - 1) [1..<n] = []"
    by (auto simp: filter_empty_conv)
  moreover have "[1..<Suc n] = [1..<n] @ [n]"
    using assms by simp
  ultimately show ?thesis by simp
qed

theorem currentChoice_wraps_counterexample:
  "getCurrentChoice
     (run numbered_states numbered_status
        (DropdownList_init numbered_status (idle_button ''menu''))
        (replicate 65536 (AddChoice (idle_button ''item''))
         @ [Update (mouse True False) (\<lambda>i. mouse False False) True True,
            Update (mouse False True) (\<lambda>i. mouse (i = 65535) True) False False])) = 0
   \<and> last_selection numbered_states numbered_status
        (DropdownList_init numbered_status (idle_button ''menu'')) None
        (replicate 65536 (AddChoice (idle_button ''item''))
         @ [Update (mouse True False) (\<lambda>i. mouse False False) True True,
            Update (mouse False True) (\<lambda>i. mouse (i = 65535) True) False False])
      = Some 65536
   \<and> added
        (replicate 65536 (AddChoice (idle_button ''item''))
         @ [Update (mouse True False) (\<lambda>i. mouse False False) True True,
            Update (mouse False True) (\<lambda>i. mouse (i = 65535) True) False False])
      = 65536"
proof -
  define e where "e = numbered_states"
  define ds where "ds = numbered_status"
  define item where "item = idle_button ''item''"
  define d0 where "d0 = DropdownList_init ds (idle_button ''menu'')"
  define click where "click = Update (mouse True False) (\<lambda>i. mouse False False) True True"
  define upd where "upd = (\<lambda>i::nat. mouse (i = 65535) True)"
  define press where "press = Update (mouse False True) upd False False"
  define d1 where "d1 = run e ds d0 (replicate 65536 (AddChoice item))"
  define d2 where "d2 = exec e ds d1 click"
  define items where "items = replicate 65536 item"
  have items: "length items = 65536" "\<And>i. i < 65536 \<Longrightarrow> items ! i = item"
    unfolding items_def by (simp_all only: length_replicate nth_replicate)
  have "d1 = d0\<lparr>m_choices := m_choices d0 @ items\<rparr>"
    unfolding d1_def items_def by (rule run_replicate_AddChoice)
  then have d1: "m_choices d1 = items" "m_dropStatus d1 = 0" "m_state (base d1) = 0"
    by (simp_all add: d0_def DropdownList_init_def ds_def numbered_status_def idle_button_def)
  have hover: "m_state (mouse True False (base d1)) = 1"
    by (simp add: mouse_def Button_update_def numbered_states_def d1 Let_def)
  have d2: "m_choices d2 = items" "m_dropStatus d2 = 1"
    by (simp_all add: d2_def click_def DropdownList_update_def d1 hover ds_def e_def
        numbered_states_def numbered_status_def Let_def)
  have s1: "selects e ds d1 click = None"
    by (simp add: click_def d1 ds_def numbered_status_def)
  have pressed: "isPressed e (upd i item) \<longleftrightarrow> i = 65535" for i
    by (simp add: isPressed_def upd_def mouse_def Button_update_def e_def numbered_states_def
        item_def idle_button_def Let_def)
  have "pressed_positions e upd items =
      filter (\<lambda>k. k - 1 = 65536 - 1) [1..<Suc 65536]"
    unfolding pressed_positions_def items(1) by (rule filter_cong) (auto simp: items(2) pressed)
  also have "\<dots> = [65536]"
    by (rule filter_last_position) simp
  finally have "pressed_positions e upd items = [65536]" .
  then have s2: "selects e ds d2 press = Some 65536"
    by (simp add: press_def d2 ds_def numbered_status_def)
  have cur: "m_currentChoice (exec e ds d2 press) = 0"
    by (simp only: exec_currentChoice s2 option.case) simp
  have "last_selection e ds d0 None (replicate 65536 (AddChoice item) @ [click, press])
      = last_selection e ds d1 None [click, press]"
    by (simp only: last_selection_append last_selection_replicate_AddChoice d1_def)
  also have "\<dots> = last_selection e ds d2 None [press]"
    by (simp only: last_selection.simps s1 d2_def option.case)
  also have "\<dots> = Some 65536"
    by (simp only: last_selection.simps s2 option.case)
  finally have sel: "last_selection e ds d0 None
      (replicate 65536 (AddChoice item) @ [click, press]) = Some 65536" .
  have "run e ds d0 (replicate 65536 (AddChoice item) @ [click, press])
      = exec e ds d2 press"
    by (simp only: run_append run.simps d1_def d2_def)
  with cur have res: "getCurrentChoice
      (run e ds d0 (replicate 65536 (AddChoice item) @ [click, press])) = 0"
    by (simp only: getCurrentChoice_def)
  have add: "added (replicate 65536 (AddChoice item) @ [click, press]) = 65536"
    by (simp only: added_replicate_AddChoice) (simp add: added_def click_def press_def)
  from res sel add show ?thesis
    unfolding e_def ds_def item_def d0_def upd_def click_def press_def by blast
qed

end
